theory Spec2Isabelle
  imports Complex_Main "HOL-Library.Word" "HOL-Library.Log_Nat"
begin

section \<open>Upload segments (storageclient, uploadsegment)\<close>

text \<open>
  The Go struct \<open>unfinishedUploadSegment\<close>. Go's \<open>int\<close> fields are read as
  mathematical integers (their signed value); \<open>uint64\<close> fields are 64-bit words.
  A \<open>[]byte\<close> that may be \<open>nil\<close> is an \<open>option\<close>. The fields that only carry
  identity or synchronisation (fileEntry, threadUID, mu, unusedHosts, workersStandby) are
  left out; what the file entry answers is passed to the functions that ask it.
\<close>

type_synonym bytes = "8 word list"

record unfinishedUploadSegment =
  id_index :: "64 word"
  index :: "64 word"
  length_seg :: "64 word"
  memoryNeeded :: "64 word"
  memoryReleased :: "64 word"
  minimumPieces :: int
  offset :: int
  piecesNeeded :: int
  stuck :: bool
  stuckRepair :: bool
  logicalSegmentData :: "bytes list option"
  physicalSegmentData :: "bytes option list"
  pieceUsage :: "bool list"
  piecesCompleted :: int
  piecesRegistered :: int
  released :: bool
  workersRemaining :: int

text \<open>\<open>SegmentComplete\<close>: two early returns of \<open>true\<close>, then \<open>false\<close>.\<close>

definition SegmentComplete :: "unfinishedUploadSegment \<Rightarrow> bool" where
  "SegmentComplete uc =
     (if piecesCompleted uc = piecesNeeded uc \<and> piecesRegistered uc = 0 then True
      else if workersRemaining uc = 0 \<and> piecesRegistered uc = 0 then True
      else False)"

text \<open>A segment state with more completed pieces than needed and a worker left.\<close>

definition seg_overfull :: unfinishedUploadSegment where
  "seg_overfull = \<lparr> id_index = 0, index = 0, length_seg = 0, memoryNeeded = 0,
     memoryReleased = 0, minimumPieces = 1, offset = 0, piecesNeeded = 2, stuck = False,
     stuckRepair = False, logicalSegmentData = None, physicalSegmentData = [],
     pieceUsage = [True, True], piecesCompleted = 3, piecesRegistered = 0,
     released = False, workersRemaining = 1 \<rparr>"

section \<open>Errors and panics\<close>

text \<open>
  A Go error is \<open>Err\<close> with its message; the run-time panics that the modelled code can
  raise are values of their own.
\<close>

datatype error =
  Panic_index_out_of_range
  | Panic_divide_by_zero
  | Panic_makeslice
  | Err string

section \<open>Downloads (storageclient, newDownload)\<close>

text \<open>
  What \<open>newDownload\<close> asks of the file snapshot. \<open>sn_Sectors_err i\<close> is the error of
  \<open>Sectors(i)\<close>, if it has one.
\<close>

record Snapshot =
  sn_FileSize :: "64 word"
  sn_SegmentSize :: "64 word"
  sn_SectorSize :: "64 word"
  sn_NumSectors :: nat
  sn_Sectors_err :: "64 word \<Rightarrow> string option"

text \<open>
  Modelled from the spec: \<open>SegmentIndexByOffset\<close> is declared in the dxfile package outside
  the source files here. By the spec a segment is a fixed-size slice of the file with an
  index and a byte offset within the file, so the offset \<open>off\<close> lies in segment
  \<open>off / segmentSize\<close> at \<open>off % segmentSize\<close>; Go's integer division panics on a zero
  divisor.
\<close>

definition SegmentIndexByOffset :: "Snapshot \<Rightarrow> 64 word \<Rightarrow> error + (64 word \<times> 64 word)" where
  "SegmentIndexByOffset file off =
     (if sn_SegmentSize file = 0 then Inl Panic_divide_by_zero
      else Inr (off div sn_SegmentSize file, off mod sn_SegmentSize file))"

record downloadParams =
  dp_file :: "Snapshot option"
  dp_length :: "64 word"
  dp_offset :: "64 word"
  dp_needsMemory :: bool
  dp_overdrive :: int
  dp_priority :: "64 word"
  dp_latencyTarget :: "64 word"

record unfinishedDownloadSegment =
  segmentIndex :: "64 word"
  segmentSize :: "64 word"
  sectorSize :: "64 word"
  fetchOffset :: "64 word"
  fetchLength :: "64 word"
  writeOffset :: "64 word"
  latencyTarget :: "64 word"
  needsMemory :: bool
  priority :: "64 word"
  overdrive :: "32 word"

text \<open>
  The download object: \<open>d_complete\<close> is set by \<open>markComplete\<close>, \<open>d_segments\<close> are the
  segments this call has added to the download heap, in the order of the calls.
\<close>

record download =
  d_length :: "64 word"
  d_offset :: "64 word"
  d_segmentsRemaining :: "64 word"
  d_complete :: bool
  d_segments :: "unfinishedDownloadSegment list"

text \<open>
  The values of \<open>for i := startSegmentIndex; i <= endSegmentIndex; i++\<close> on \<open>uint64\<close>.
  \<open>endSegmentIndex\<close> is never the largest \<open>uint64\<close> (it is a quotient that is decremented
  when the segment size is 1), so the loop counter does not wrap.
\<close>

definition segment_range :: "64 word \<Rightarrow> 64 word \<Rightarrow> 64 word list" where
  "segment_range startIdx endIdx = map of_nat [unat startIdx ..< Suc (unat endIdx)]"

text \<open>
  \<open>make([]map[string]downloadSectorInfo, n)\<close> with \<open>n\<close> a \<open>uint64\<close>: on a 64-bit
  platform the run time panics when the slice would take more than \<open>2^48\<close> bytes, 8 bytes
  an element.
\<close>

definition makeslice_panics :: "64 word \<Rightarrow> bool" where
  "makeslice_panics n = (2 ^ 45 < unat n)"

text \<open>The first loop of \<open>newDownload\<close>: the first error of \<open>Sectors\<close>, if any.\<close>

fun first_Sectors_err :: "Snapshot \<Rightarrow> 64 word list \<Rightarrow> string option" where
  "first_Sectors_err file [] = None"
| "first_Sectors_err file (i # is) =
     (case sn_Sectors_err file i of Some e \<Rightarrow> Some e | None \<Rightarrow> first_Sectors_err file is)"

text \<open>
  The second loop of \<open>newDownload\<close>: one unfinished download segment per index, with
  \<open>writeOffset\<close> carried from one to the next (an \<open>int64\<close>, kept as its 64 bits).
\<close>

fun queue_segments ::
  "downloadParams \<Rightarrow> Snapshot \<Rightarrow> 64 word \<Rightarrow> 64 word \<Rightarrow> 64 word \<Rightarrow> 64 word \<Rightarrow> 64 word
     \<Rightarrow> 64 word list \<Rightarrow> unfinishedDownloadSegment list" where
  "queue_segments params file startIdx startOff endIdx endOff wo [] = []"
| "queue_segments params file startIdx startOff endIdx endOff wo (i # is) =
     (let fo = (if i = startIdx then startOff else 0);
          fl = (if i = endIdx \<and> endOff \<noteq> 0 then endOff - fo else sn_SegmentSize file - fo);
          uds = \<lparr> segmentIndex = i, segmentSize = sn_SegmentSize file,
                  sectorSize = sn_SectorSize file, fetchOffset = fo, fetchLength = fl,
                  writeOffset = wo,
                  latencyTarget = dp_latencyTarget params + 25 * (i - startIdx),
                  needsMemory = dp_needsMemory params, priority = dp_priority params,
                  overdrive = word_of_int (dp_overdrive params) \<rparr>
      in uds # queue_segments params file startIdx startOff endIdx endOff (wo + fl) is)"

text \<open>
  \<open>newDownload\<close>. The tests \<open>params.length < 0\<close> and \<open>params.offset < 0\<close> are on
  \<open>uint64\<close> values and never hold. The sum \<open>offset + length\<close> wraps.
\<close>

definition newDownload :: "downloadParams \<Rightarrow> error + download" where
  "newDownload params =
     (case dp_file params of
        None \<Rightarrow> Inl (Err ''not exist the remote file'')
      | Some file \<Rightarrow>
          if sn_FileSize file < dp_offset params + dp_length params
          then Inl (Err ''download data out the boundary of the remote file'')
          else if dp_length params = 0
          then Inr \<lparr> d_length = dp_length params, d_offset = dp_offset params,
                     d_segmentsRemaining = 0, d_complete = True, d_segments = [] \<rparr>
          else
            (case SegmentIndexByOffset file (dp_offset params) of
               Inl e \<Rightarrow> Inl e
             | Inr (startSegmentIndex, startSegmentOffset) \<Rightarrow>
                 (case SegmentIndexByOffset file (dp_offset params + dp_length params) of
                    Inl e \<Rightarrow> Inl e
                  | Inr (endIdx0, endSegmentOffset) \<Rightarrow>
                      let endSegmentIndex =
                            (if 0 < endIdx0 \<and> endSegmentOffset = 0 then endIdx0 - 1
                             else endIdx0);
                          n = endSegmentIndex - startSegmentIndex + 1;
                          idxs = segment_range startSegmentIndex endSegmentIndex
                      in if makeslice_panics n then Inl Panic_makeslice
                         else
                           (case first_Sectors_err file idxs of
                              Some e \<Rightarrow> Inl (Err e)
                            | None \<Rightarrow>
                                Inr \<lparr> d_length = dp_length params,
                                      d_offset = dp_offset params,
                                      d_segmentsRemaining = n, d_complete = False,
                                      d_segments =
                                        queue_segments params file startSegmentIndex
                                          startSegmentOffset endSegmentIndex
                                          endSegmentOffset 0 idxs \<rparr>))))"

section \<open>Go's float64 and int arithmetic\<close>

text \<open>
  A finite \<open>float64\<close> is the rational number it denotes. An operation is the exact
  operation followed by IEEE 754 rounding to nearest, ties to even, to a significand of 53
  bits. The exponent is not bounded here: the values that the modelled code computes are
  zero or of a magnitude between \<open>1/4\<close> and \<open>2^64\<close>, far from overflow and underflow, and
  no NaN or infinity arises. \<open>f64_exponent x\<close> is the integer \<open>e\<close> with
  \<open>2^e \<le> |x| < 2^(e+1)\<close>.
\<close>

definition f64_exponent :: "rat \<Rightarrow> int" where
  "f64_exponent x =
     (if 1 \<le> \<bar>x\<bar> then bitlen \<lfloor>\<bar>x\<bar>\<rfloor> - 1
      else - bitlen (\<lceil>1 / \<bar>x\<bar>\<rceil> - 1))"

definition round_half_even :: "rat \<Rightarrow> int" where
  "round_half_even q =
     (let f = \<lfloor>q\<rfloor>; d = q - of_int f
      in if d < 1 / 2 then f
         else if 1 / 2 < d then f + 1
         else if even f then f else f + 1)"

definition round_f64 :: "rat \<Rightarrow> rat" where
  "round_f64 x =
     (if x = 0 then 0
      else let u = 2 powi (f64_exponent x - 52)
           in of_int (round_half_even (x / u)) * u)"

text \<open>The conversion \<open>float64(n)\<close> of an integer and the product of two floats.\<close>

definition float64_of_int :: "int \<Rightarrow> rat" where
  "float64_of_int n = round_f64 (of_int n)"

definition f64_mul :: "rat \<Rightarrow> rat \<Rightarrow> rat" where
  "f64_mul a b = round_f64 (a * b)"

text \<open>
  The conversion \<open>int(x)\<close> of a float discards the fraction (truncation towards zero);
  the values converted here are within the range of \<open>int\<close>.
\<close>

definition int_of_float64 :: "rat \<Rightarrow> int" where
  "int_of_float64 x = (if 0 \<le> x then \<lfloor>x\<rfloor> else \<lceil>x\<rceil>)"

text \<open>Go's \<open>int\<close> is 64 bits wide; sums and differences wrap around.\<close>

definition int64_wrap :: "int \<Rightarrow> int" where
  "int64_wrap x = sint (word_of_int x :: 64 word)"

text \<open>
  Modelled from the spec: the constant \<open>RemoteRepairDownloadThreshold\<close> is declared outside
  the source files here and the spec names it without its value; the comment at its use in
  \<open>managedFetchLogicalSegmentData\<close>, "Only download this file if more than 25% of the
  redundancy is missing", gives \<open>0.25\<close>.
\<close>

definition RemoteRepairDownloadThreshold :: rat where
  "RemoteRepairDownloadThreshold = 1 / 4"

section \<open>Fetching the logical data of a segment\<close>

text \<open>
  What the functions ask of the segment's file entry. \<open>fe_MinSectors\<close> is
  \<open>uint64(ErasureCode().MinSectors())\<close>.
\<close>

record fileEntry =
  fe_LocalPath :: string
  fe_FileSize :: "64 word"
  fe_SectorSize :: "64 word"
  fe_NumSegments :: int
  fe_MinSectors :: "64 word"
  fe_Snapshot :: Snapshot

text \<open>
  What the environment answers during one run: whether the thread manager refuses the
  thread, whether \<open>os.Open\<close> fails, what reading the local file gives, how the wait for
  the repair download ends, whether the client is online and whether the stop channel is
  closed, the size of the worker pool, what the erasure coder and the cipher return, and
  whether building the DxPath or its directory fails.
\<close>

datatype wait_outcome = Stopped | Failed string | Completed "bytes list"

datatype read_outcome = ReadOK | ReadEOF | ReadUnexpectedEOF | ReadFailed string

record world =
  w_tm_Add_err :: bool
  w_open_err :: bool
  w_read :: read_outcome
  w_read_buf :: "bytes list"
  w_wait :: wait_outcome
  w_online :: bool
  w_stopped :: bool
  w_numWorkers :: int
  w_encode :: "bytes list option \<Rightarrow> bytes option list \<times> string option"
  w_encrypt :: "bytes option \<Rightarrow> string + bytes"
  w_NewDxPath_err :: bool
  w_Dir_err :: bool

text \<open>
  The first lines of \<open>managedDownloadLogicalSegmentData\<close>: the length to download.
  The remainder is only computed for the last segment (\<open>&&\<close> short-circuits), and
  panics on a segment of length zero.
\<close>

definition repair_downloadLength :: "fileEntry \<Rightarrow> unfinishedUploadSegment \<Rightarrow> error + 64 word" where
  "repair_downloadLength fe segment =
     (if index segment = word_of_int (fe_NumSegments fe - 1)
      then (if length_seg segment = 0 then Inl Panic_divide_by_zero
            else if fe_FileSize fe mod length_seg segment \<noteq> 0
            then Inr (fe_FileSize fe mod length_seg segment)
            else Inr (length_seg segment))
      else Inr (length_seg segment))"

definition repair_downloadParams ::
  "fileEntry \<Rightarrow> unfinishedUploadSegment \<Rightarrow> 64 word \<Rightarrow> downloadParams" where
  "repair_downloadParams fe segment downloadLength =
     \<lparr> dp_file = Some (fe_Snapshot fe), dp_length = downloadLength,
       dp_offset = word_of_int (offset segment), dp_needsMemory = False,
       dp_overdrive = 0, dp_priority = 0, dp_latencyTarget = 200000 \<rparr>"

definition managedDownloadLogicalSegmentData ::
  "world \<Rightarrow> fileEntry \<Rightarrow> unfinishedUploadSegment \<Rightarrow> error + unfinishedUploadSegment" where
  "managedDownloadLogicalSegmentData w fe segment =
     (case repair_downloadLength fe segment of
        Inl e \<Rightarrow> Inl e
      | Inr downloadLength \<Rightarrow>
          (case newDownload (repair_downloadParams fe segment downloadLength) of
             Inl e \<Rightarrow> Inl e
           | Inr d \<Rightarrow>
               (case w_wait w of
                  Stopped \<Rightarrow> Inl (Err ''repair download interrupted by stop call'')
                | Failed e \<Rightarrow> Inl (Err e)
                | Completed buf \<Rightarrow> Inr (segment\<lparr>logicalSegmentData := Some buf\<rparr>))))"

text \<open>The three locals at the head of \<open>managedFetchLogicalSegmentData\<close>.\<close>

definition minMissingPiecesToDownload :: "unfinishedUploadSegment \<Rightarrow> int" where
  "minMissingPiecesToDownload segment =
     (let numParityPieces =
            float64_of_int (int64_wrap (piecesNeeded segment - minimumPieces segment))
      in int_of_float64 (f64_mul numParityPieces RemoteRepairDownloadThreshold))"

definition download_wanted :: "unfinishedUploadSegment \<Rightarrow> bool" where
  "download_wanted segment =
     (int64_wrap (piecesCompleted segment + minMissingPiecesToDownload segment)
        < piecesNeeded segment)"

definition read_failed :: "read_outcome \<Rightarrow> bool" where
  "read_failed r = (case r of ReadFailed e \<Rightarrow> True | _ \<Rightarrow> False)"

text \<open>
  \<open>managedFetchLogicalSegmentData\<close>. The first component says whether the function has
  called \<open>managedDownloadLogicalSegmentData\<close>, that is, issued a repair download.
\<close>

definition managedFetchLogicalSegmentData ::
  "world \<Rightarrow> fileEntry \<Rightarrow> unfinishedUploadSegment
     \<Rightarrow> bool \<times> (error + unfinishedUploadSegment)" where
  "managedFetchLogicalSegmentData w fe segment =
     (let download = download_wanted segment in
      if fe_LocalPath fe = [] \<and> download
        then (True, managedDownloadLogicalSegmentData w fe segment)
      else if fe_LocalPath fe = []
        then (False, Inl (Err ''file not available locally''))
      else if w_open_err w \<and> download
        then (True, managedDownloadLogicalSegmentData w fe segment)
      else if w_open_err w
        then (False, Inl (Err ''failed to open file locally''))
      else if read_failed (w_read w) \<and> download
        then (True, managedDownloadLogicalSegmentData w fe segment)
      else if read_failed (w_read w)
        then (False, Inl (Err ''failed to read file locally''))
      else (False, Inr (segment\<lparr>logicalSegmentData := Some (w_read_buf w)\<rparr>)))"

section \<open>The stuck status of a segment\<close>

text \<open>
  \<open>successfulRepair\<close> of \<open>managedUpdateUploadSegmentStuckStatus\<close>. The constant expression
  \<open>1 - RemoteRepairDownloadThreshold\<close> is rounded to a \<open>float64\<close>, the product is a
  \<open>float64\<close> product, and the comparison is exact.
\<close>

definition successfulRepair :: "int \<Rightarrow> int \<Rightarrow> bool" where
  "successfulRepair pNeeded pCompleted =
     (f64_mul (round_f64 (1 - RemoteRepairDownloadThreshold)) (float64_of_int pNeeded)
        \<le> float64_of_int pCompleted)"

text \<open>
  What \<open>managedUpdateUploadSegmentStuckStatus\<close> does: the call
  \<open>SetStuckByIndex(int(index), stuck)\<close> with its arguments when it is made, whether the
  directory metadata is bubbled, and whether the function reaches the send on
  \<open>stuckSegmentSuccess\<close>.
\<close>

record stuck_update =
  su_SetStuckByIndex :: "(int \<times> bool) option"
  su_bubble :: bool
  su_signal :: bool

definition managedUpdateUploadSegmentStuckStatus ::
  "world \<Rightarrow> unfinishedUploadSegment \<Rightarrow> stuck_update" where
  "managedUpdateUploadSegmentStuckStatus w uc =
     (let successful = successfulRepair (piecesNeeded uc) (piecesCompleted uc);
          renterError = (if w_stopped w then True else \<not> w_online w)
      in if \<not> successful \<and> renterError
         then \<lparr> su_SetStuckByIndex = None, su_bubble = False, su_signal = False \<rparr>
         else
           let call = Some (sint (id_index uc), \<not> successful)
           in if w_NewDxPath_err w \<or> w_Dir_err w
              then \<lparr> su_SetStuckByIndex = call, su_bubble = False, su_signal = False \<rparr>
              else \<lparr> su_SetStuckByIndex = call, su_bubble = True,
                     su_signal = (stuck uc \<and> successful \<and> stuckRepair uc) \<rparr>)"

section \<open>Cleaning up and repairing an upload segment\<close>

text \<open>
  The loop of \<open>managedCleanUpUploadSegment\<close> over the piece indices, on its two locals
  and the segment. \<open>SectorSize\<close> is the constant \<open>storage.SectorSize\<close>, declared outside
  the source files here and taken as a parameter. The assignment
  \<open>uc.physicalSegmentData[i] = nil\<close> panics when the slice is shorter than
  \<open>pieceUsage\<close>.
\<close>

record cleanup_loop_state =
  cl_piecesAvailable :: int
  cl_memoryReleased :: "64 word"
  cl_uc :: unfinishedUploadSegment

fun cleanup_loop ::
  "64 word \<Rightarrow> nat list \<Rightarrow> cleanup_loop_state \<Rightarrow> error + cleanup_loop_state" where
  "cleanup_loop SectorSize [] st = Inr st"
| "cleanup_loop SectorSize (i # is) st =
     (if pieceUsage (cl_uc st) ! i then cleanup_loop SectorSize is st
      else if workersRemaining (cl_uc st) \<le> cl_piecesAvailable st then
        (if i < length (physicalSegmentData (cl_uc st)) then
           cleanup_loop SectorSize is
             (st\<lparr>cl_memoryReleased := cl_memoryReleased st + SectorSize,
                 cl_uc := (cl_uc st)\<lparr>
                   physicalSegmentData := (physicalSegmentData (cl_uc st))[i := None],
                   pieceUsage := (pieceUsage (cl_uc st))[i := True]\<rparr>\<rparr>)
         else Inl Panic_index_out_of_range)
      else cleanup_loop SectorSize is (st\<lparr>cl_piecesAvailable := cl_piecesAvailable st + 1\<rparr>))"

text \<open>
  What \<open>managedCleanUpUploadSegment\<close> leaves: the segment, the final count of available
  pieces, the amounts passed to \<open>memoryManager.Return\<close> in the order of the calls, whether
  the standby workers are notified, the stuck status update when the segment is finalized,
  and whether the segment is removed from the repairing set.
\<close>

record cleanup_result =
  cr_uc :: unfinishedUploadSegment
  cr_piecesAvailable :: int
  cr_Return :: "64 word list"
  cr_notifyStandby :: bool
  cr_stuck_update :: "stuck_update option"
  cr_removed :: bool

definition managedCleanUpUploadSegment ::
  "64 word \<Rightarrow> world \<Rightarrow> unfinishedUploadSegment \<Rightarrow> error + cleanup_result" where
  "managedCleanUpUploadSegment SectorSize w uc =
     (case cleanup_loop SectorSize [0 ..< length (pieceUsage uc)]
             \<lparr> cl_piecesAvailable = 0, cl_memoryReleased = 0, cl_uc = uc \<rparr> of
        Inl e \<Rightarrow> Inl e
      | Inr st \<Rightarrow>
          let uc1 = cl_uc st;
              segmentComplete = SegmentComplete uc1;
              wasReleased = released uc1;
              uc2 = (if segmentComplete \<and> \<not> wasReleased then uc1\<lparr>released := True\<rparr>
                     else uc1);
              uc3 = uc2\<lparr>memoryReleased := memoryReleased uc2 + cl_memoryReleased st\<rparr>
          in Inr \<lparr> cr_uc = uc3,
                   cr_piecesAvailable = cl_piecesAvailable st,
                   cr_Return = (if 0 < cl_memoryReleased st then [cl_memoryReleased st]
                                else []),
                   cr_notifyStandby = (0 < cl_piecesAvailable st),
                   cr_stuck_update =
                     (if segmentComplete \<and> \<not> wasReleased
                      then Some (managedUpdateUploadSegmentStuckStatus w uc3) else None),
                   cr_removed = (segmentComplete \<and> \<not> wasReleased) \<rparr>)"





text \<open>
  An environment for running the functions on concrete input: the client is offline, the
  local file cannot be opened and a repair download is interrupted.
\<close>

definition world_offline :: world where
  "world_offline = \<lparr> w_tm_Add_err = False, w_open_err = True, w_read = ReadOK,
     w_read_buf = [], w_wait = Stopped, w_online = False, w_stopped = False,
     w_numWorkers = 0, w_encode = (\<lambda>d. ([], None)), w_encrypt = (\<lambda>p. Inl ''no key''),
     w_NewDxPath_err = False, w_Dir_err = False \<rparr>"

text \<open>
  A segment of three pieces, the second in use, with one worker remaining: the first piece
  is counted as available and the third is released.
\<close>

definition seg_c3 :: unfinishedUploadSegment where
  "seg_c3 = \<lparr> id_index = 0, index = 0, length_seg = 0, memoryNeeded = 0,
     memoryReleased = 0, minimumPieces = 1, offset = 0, piecesNeeded = 3, stuck = False,
     stuckRepair = False, logicalSegmentData = None,
     physicalSegmentData = [Some [1], Some [2], Some [3]],
     pieceUsage = [False, True, False], piecesCompleted = 1, piecesRegistered = 1,
     released = False, workersRemaining = 1 \<rparr>"

text \<open>
  The loop at the head of \<open>threadedFetchAndRepairSegment\<close> that adds one
  \<open>storage.SectorSize\<close> for every piece in use.
\<close>

definition pieceCompletedMemory :: "64 word \<Rightarrow> bool list \<Rightarrow> 64 word" where
  "pieceCompletedMemory SectorSize pu =
     foldl (\<lambda>acc used. if used then acc + SectorSize else acc) 0 pu"

text \<open>
  The loop that drops the pieces in use and encrypts the others; a piece whose encryption
  fails stays as it is.
\<close>

definition encrypt_pieces :: "world \<Rightarrow> bool list \<Rightarrow> bytes option list \<Rightarrow> bytes option list" where
  "encrypt_pieces w pu phys =
     map (\<lambda>i. if i < length pu
              then (if pu ! i then None
                    else (case w_encrypt w (phys ! i) of
                            Inl e \<Rightarrow> phys ! i | Inr cipherData \<Rightarrow> Some cipherData))
              else phys ! i)
       [0 ..< length phys]"

text \<open>
  What a run of \<open>threadedFetchAndRepairSegment\<close> leaves: the segment, the amounts passed
  to \<open>memoryManager.Return\<close> in the order of the calls, and whether the segment was
  distributed to the workers.
\<close>

record repair_result =
  rr_segment :: unfinishedUploadSegment
  rr_Return :: "64 word list"
  rr_distributed :: bool

text \<open>
  The statements of \<open>threadedFetchAndRepairSegment\<close> from the computation of
  \<open>erasureCodingMemory\<close> to its \<open>return\<close>, before the deferred cleanup runs. A panic of
  the fetch is not an error value: it passes through.
\<close>

definition threadedFetchAndRepairSegment_body ::
  "64 word \<Rightarrow> world \<Rightarrow> fileEntry \<Rightarrow> unfinishedUploadSegment \<Rightarrow> error + repair_result" where
  "threadedFetchAndRepairSegment_body SectorSize w fe segment =
     (let erasureCodingMemory = fe_SectorSize fe * fe_MinSectors fe;
          pcm = pieceCompletedMemory SectorSize (pieceUsage segment)
      in case snd (managedFetchLogicalSegmentData w fe segment) of
           Inl (Err e) \<Rightarrow>
             Inr \<lparr> rr_segment = segment\<lparr>logicalSegmentData := None, workersRemaining := 0,
                     memoryReleased := memoryReleased segment + (erasureCodingMemory + pcm)\<rparr>,
                   rr_Return = [erasureCodingMemory + pcm], rr_distributed = False \<rparr>
         | Inl p \<Rightarrow> Inl p
         | Inr seg1 \<Rightarrow>
             let (phys, encodeErr) = w_encode w (logicalSegmentData seg1);
                 seg2 = seg1\<lparr>physicalSegmentData := phys, logicalSegmentData := None,
                          memoryReleased := memoryReleased seg1 + erasureCodingMemory\<rparr>
             in case encodeErr of
                  Some e \<Rightarrow>
                    Inr \<lparr> rr_segment = seg2\<lparr>workersRemaining := 0,
                            memoryReleased := memoryReleased seg2 + pcm,
                            physicalSegmentData := map (\<lambda>x. None) phys\<rparr>,
                          rr_Return = [erasureCodingMemory, pcm], rr_distributed = False \<rparr>
                | None \<Rightarrow>
                    if length phys < length (pieceUsage seg2)
                    then Inr \<lparr> rr_segment = seg2, rr_Return = [erasureCodingMemory],
                               rr_distributed = False \<rparr>
                    else
                      let seg3 = seg2\<lparr>physicalSegmentData :=
                                   encrypt_pieces w (pieceUsage seg2) phys\<rparr>;
                          seg4 = (if 0 < pcm
                                  then seg3\<lparr>memoryReleased := memoryReleased seg3 + pcm\<rparr>
                                  else seg3)
                      in Inr \<lparr> rr_segment = seg4\<lparr>workersRemaining :=
                                  int64_wrap (workersRemaining seg4 + w_numWorkers w)\<rparr>,
                               rr_Return = (if 0 < pcm then [erasureCodingMemory, pcm]
                                            else [erasureCodingMemory]),
                               rr_distributed = True \<rparr>)"

text \<open>
  The whole function: nothing happens when the thread manager refuses the thread;
  otherwise the deferred \<open>managedCleanUpUploadSegment\<close> runs after the body.
\<close>

definition threadedFetchAndRepairSegment ::
  "64 word \<Rightarrow> world \<Rightarrow> fileEntry \<Rightarrow> unfinishedUploadSegment \<Rightarrow> error + repair_result" where
  "threadedFetchAndRepairSegment SectorSize w fe segment =
     (if w_tm_Add_err w
      then Inr \<lparr> rr_segment = segment, rr_Return = [], rr_distributed = False \<rparr>
      else
        (case threadedFetchAndRepairSegment_body SectorSize w fe segment of
           Inl p \<Rightarrow> Inl p
         | Inr r \<Rightarrow>
             (case managedCleanUpUploadSegment SectorSize w (rr_segment r) of
                Inl p \<Rightarrow> Inl p
              | Inr c \<Rightarrow>
                  Inr \<lparr> rr_segment = cr_uc c, rr_Return = rr_Return r @ cr_Return c,
                        rr_distributed = rr_distributed r \<rparr>)))"

section \<open>Directory metadata (dxdir)\<close>

record Metadata =
  NumFiles :: "64 word"
  TotalSize :: "64 word"
  Health :: "32 word"
  StuckHealth :: "32 word"
  MinRedundancy :: "32 word"
  TimeLastHealthCheck :: "64 word"
  TimeModify :: "64 word"
  NumStuckSegments :: "32 word"
  DxPath :: string
  RootPath :: string

record DxDir =
  metadata :: Metadata
  deleted :: bool
  dirFilePath_of :: string

text \<open>
  \<open>UpdateMetadata\<close> assigns eight fields of the stored metadata and then calls
  \<open>save\<close>. \<open>now\<close> is the value of \<open>uint64(time.Now().Unix())\<close> at the call.
  \<open>save\<close> writes the file through the write-ahead log and is not part of this
  package's sources here; its error is the parameter \<open>save_err\<close>, returned as it is.
  The in-memory assignments have happened whatever \<open>save\<close> answers.
\<close>

definition UpdateMetadata ::
  "64 word \<Rightarrow> string option \<Rightarrow> Metadata \<Rightarrow> DxDir \<Rightarrow> DxDir \<times> string option" where
  "UpdateMetadata now save_err md d =
     (d\<lparr>metadata := (metadata d)\<lparr>
          NumFiles := NumFiles md,
          TotalSize := TotalSize md,
          Health := Health md,
          StuckHealth := StuckHealth md,
          MinRedundancy := MinRedundancy md,
          TimeLastHealthCheck := TimeLastHealthCheck md,
          TimeModify := now,
          NumStuckSegments := NumStuckSegments md\<rparr>\<rparr>,
      save_err)"

section \<open>Directory set (dxdir, dirset)\<close>

text \<open>
  Go's \<open>filepath.Join\<close> on a system whose separator is \<open>/\<close>: empty elements are
  ignored, the rest are joined with the separator and the result goes through
  \<open>filepath.Clean\<close>; when every element is empty the result is the empty string.
  \<open>Clean\<close> drops empty and \<open>.\<close> elements, resolves an inner \<open>..\<close> against the
  element before it, drops \<open>..\<close> at the start of a rooted path, and answers \<open>.\<close> for
  an empty result.
\<close>

fun split_sep :: "string \<Rightarrow> string list" where
  "split_sep [] = [[]]"
| "split_sep (c # cs) =
     (if c = CHR ''/'' then [] # split_sep cs
      else (case split_sep cs of [] \<Rightarrow> [[c]] | x # xs \<Rightarrow> (c # x) # xs))"

fun join_sep :: "string list \<Rightarrow> string" where
  "join_sep [] = []"
| "join_sep [x] = x"
| "join_sep (x # y # ys) = x @ ''/'' @ join_sep (y # ys)"

fun clean_elems :: "bool \<Rightarrow> string list \<Rightarrow> string list \<Rightarrow> string list" where
  "clean_elems rooted acc [] = rev acc"
| "clean_elems rooted acc (c # cs) =
     (if c = [] \<or> c = ''.'' then clean_elems rooted acc cs
      else if c = ''..'' then
        (case acc of
           [] \<Rightarrow> if rooted then clean_elems rooted [] cs
                 else clean_elems rooted [''..''] cs
         | a # as \<Rightarrow> if a = ''..'' then clean_elems rooted (''..'' # acc) cs
                     else clean_elems rooted as cs)
      else clean_elems rooted (c # acc) cs)"

definition filepath_Clean :: "string \<Rightarrow> string" where
  "filepath_Clean p =
     (if p = [] then ''.''
      else let rooted = (hd p = CHR ''/'');
               out = join_sep (clean_elems rooted [] (split_sep p))
           in if rooted then CHR ''/'' # out
              else if out = [] then ''.'' else out)"

definition filepath_Join :: "string list \<Rightarrow> string" where
  "filepath_Join elems =
     (let es = filter (\<lambda>e. e \<noteq> []) elems
      in if es = [] then [] else filepath_Clean (join_sep es))"

text \<open>The constant \<open>DirFileName\<close> of dxdir.go.\<close>

definition DirFileName :: string where
  "DirFileName = ''.dxdir''"

text \<open>
  Modelled from the spec: the lower-case constant \<open>dirFileName\<close> that dirset.go names is
  declared in no source file here; the spec's layout \<open>filesystem/<dxpath>/.dxdir\<close> gives
  the directory metadata file the name \<open>.dxdir\<close>, the value of \<open>DirFileName\<close>.
\<close>

definition dirFileName :: string where
  "dirFileName = ''.dxdir''"

text \<open>
  Modelled from the spec: \<open>storage.SysPath.Join\<close> is declared outside the source files
  here; by the spec's layout (\<open>filesystem/<dxpath>/.dxdir\<close> under the root) it joins the
  system path, the DxPath and the extra elements with \<open>filepath.Join\<close>.
\<close>

definition SysPath_Join :: "string \<Rightarrow> string \<Rightarrow> string list \<Rightarrow> string" where
  "SysPath_Join sp dp extra = filepath_Join (sp # dp # extra)"

text \<open>The first statement of \<open>New\<close>: the path of the file that \<open>New\<close> creates.\<close>

definition New_filePath :: "string \<Rightarrow> string \<Rightarrow> string" where
  "New_filePath dxPath rootPath = SysPath_Join rootPath dxPath [DirFileName]"

text \<open>
  \<open>DirSet\<close>: the root directory and the keys of \<open>dirMap\<close> (the open entries).
\<close>

record DirSet =
  rootDir :: string
  dirMap_keys :: "string set"

definition dirFilePath :: "DirSet \<Rightarrow> string \<Rightarrow> string" where
  "dirFilePath ds path = filepath_Join [path, path, dirFileName]"

definition dirPath :: "DirSet \<Rightarrow> string \<Rightarrow> string" where
  "dirPath ds path = filepath_Join [rootDir ds, path]"

text \<open>
  \<open>exists\<close>: an open entry exists; otherwise \<open>os.Stat\<close> decides. The file system is
  the set of paths for which \<open>os.Stat\<close> succeeds.
\<close>

definition exists_dir :: "string set \<Rightarrow> DirSet \<Rightarrow> string \<Rightarrow> bool" where
  "exists_dir fs ds path =
     (if path \<in> dirMap_keys ds then True
      else if dirFilePath ds path \<in> fs then True else False)"

section \<open>Memory manager\<close>

text \<open>
  Modelled from the spec: the memory manager's implementation (\<open>New\<close>, \<open>Request\<close>,
  \<open>Return\<close>, \<open>SetMemoryLimit\<close>) is in no source file here, only its test is. The
  definitions below follow section 4.A of the spec and its two concrete scenarios. The
  waiting queues are not modelled: a request that cannot be admitted is \<open>None\<close>.
\<close>

record memoryManager =
  available :: "64 word"
  limit :: "64 word"
  underflow :: "64 word"

definition mm_New :: "64 word \<Rightarrow> memoryManager" where
  "mm_New amount = \<lparr> available = amount, limit = amount, underflow = 0 \<rparr>"

text \<open>
  Modelled from the spec: \<open>Request\<close> reserves the amount when that much is available; an
  amount greater than the limit is admitted as underflow, the part beyond the limit
  being the underflow (scenario 1: limit 100000, request 150000, underflow 50000);
  any other request waits. The priority \<open>high\<close> orders the waiters only.
\<close>

definition mm_Request :: "64 word \<Rightarrow> bool \<Rightarrow> memoryManager \<Rightarrow> memoryManager option" where
  "mm_Request amount high mm =
     (if amount \<le> available mm then Some (mm\<lparr>available := available mm - amount\<rparr>)
      else if limit mm < amount
        then Some (mm\<lparr>available := 0, underflow := amount - limit mm\<rparr>)
      else None)"

text \<open>
  Modelled from the spec: \<open>Return\<close> absorbs the underflow before it replenishes what is
  available.
\<close>

definition mm_Return :: "64 word \<Rightarrow> memoryManager \<Rightarrow> memoryManager" where
  "mm_Return amount mm =
     (if amount \<le> underflow mm then mm\<lparr>underflow := underflow mm - amount\<rparr>
      else mm\<lparr>available := available mm + (amount - underflow mm), underflow := 0\<rparr>)"

text \<open>
  Modelled from the spec: \<open>SetMemoryLimit\<close>. Expanding frees the slack, which is given
  back like a return (scenario 1: the slack of 56000 clears the underflow of 50000).
  Shrinking takes the difference from what is available; when less than that is
  available the deficit is recorded as underflow.
\<close>

definition mm_SetMemoryLimit :: "64 word \<Rightarrow> memoryManager \<Rightarrow> memoryManager" where
  "mm_SetMemoryLimit newLimit mm =
     (if limit mm < newLimit
        then (mm_Return (newLimit - limit mm) mm)\<lparr>limit := newLimit\<rparr>
      else let shrink = limit mm - newLimit in
        if available mm < shrink
          then mm\<lparr>available := 0, underflow := underflow mm + (shrink - available mm),
                  limit := newLimit\<rparr>
        else mm\<lparr>available := available mm - shrink, limit := newLimit\<rparr>)"

text \<open>
  An environment in which the client is online and not stopping, the local file opens and
  reads, and a repair download completes.
\<close>

definition world_online :: world where
  "world_online = \<lparr> w_tm_Add_err = False, w_open_err = False, w_read = ReadOK,
     w_read_buf = [], w_wait = Completed [], w_online = True, w_stopped = False,
     w_numWorkers = 1, w_encode = (\<lambda>d. ([], None)), w_encrypt = (\<lambda>p. Inl ''no key''),
     w_NewDxPath_err = False, w_Dir_err = False \<rparr>"

text \<open>
  A file of 10 bytes in segments of 4 bytes: two full segments and a last one of 2 bytes.
  \<open>fe_local\<close> is its entry with a local path, \<open>fe_remote\<close> the same entry without one.
\<close>

definition snapshot_small :: Snapshot where
  "snapshot_small = \<lparr> sn_FileSize = 10, sn_SegmentSize = 4, sn_SectorSize = 4,
     sn_NumSectors = 3, sn_Sectors_err = (\<lambda>i. None) \<rparr>"

definition fe_local :: fileEntry where
  "fe_local = \<lparr> fe_LocalPath = ''/home/user/a.dat'', fe_FileSize = 10, fe_SectorSize = 4,
     fe_NumSegments = 3, fe_MinSectors = 1, fe_Snapshot = snapshot_small \<rparr>"

definition fe_remote :: fileEntry where
  "fe_remote = \<lparr> fe_LocalPath = [], fe_FileSize = 10, fe_SectorSize = 4,
     fe_NumSegments = 3, fe_MinSectors = 1, fe_Snapshot = snapshot_small \<rparr>"



text \<open>The directory set of the failing input of C8.\<close>

definition ds_data :: DirSet where
  "ds_data = \<lparr> rootDir = ''/data/files'', dirMap_keys = {} \<rparr>"


section \<open>Theorems\<close>



text \<open>
  C10. \<open>UpdateMetadata\<close> leaves DxPath and RootPath as stored, copies NumFiles,
  TotalSize, Health, StuckHealth, MinRedundancy, TimeLastHealthCheck and NumStuckSegments
  from the argument, and sets TimeModify to the current time, whatever the argument's
  TimeModify is.
\<close>

theorem UpdateMetadata_fields:
  "let m' = metadata (fst (UpdateMetadata now save_err md d)) in
     DxPath m' = DxPath (metadata d) \<and> RootPath m' = RootPath (metadata d)
     \<and> NumFiles m' = NumFiles md \<and> TotalSize m' = TotalSize md
     \<and> Health m' = Health md \<and> StuckHealth m' = StuckHealth md
     \<and> MinRedundancy m' = MinRedundancy md
     \<and> TimeLastHealthCheck m' = TimeLastHealthCheck md
     \<and> NumStuckSegments m' = NumStuckSegments md
     \<and> TimeModify m' = now"
  by (simp add: UpdateMetadata_def Let_def)

text \<open>
  C6. From a memory manager created with limit 10000, Request(15000, high),
  SetMemoryLimit(5000), Return(15000) in sequence: the request is admitted, the underflow
  is 10000 and the limit 5000 right after the shrink, and after the return the underflow
  is 0, 5000 bytes are available and the limit is 5000.
\<close>

theorem memory_shrink_scenario:
  "\<exists>m1. mm_Request 15000 True (mm_New 10000) = Some m1
     \<and> underflow (mm_SetMemoryLimit 5000 m1) = 10000
     \<and> limit (mm_SetMemoryLimit 5000 m1) = 5000
     \<and> underflow (mm_Return 15000 (mm_SetMemoryLimit 5000 m1)) = 0
     \<and> available (mm_Return 15000 (mm_SetMemoryLimit 5000 m1)) = 5000
     \<and> limit (mm_Return 15000 (mm_SetMemoryLimit 5000 m1)) = 5000"
  by (simp add: mm_Request_def mm_New_def mm_SetMemoryLimit_def mm_Return_def Let_def)

text \<open>
  C8 (the code at the failing input). For the directory set rooted at \<open>/data/files\<close> and
  the DxPath \<open>a\<close>, \<open>dirFilePath\<close> is \<open>a/a/.dxdir\<close>: the path joined with itself, the
  root directory left out. \<open>New\<close> creates the metadata file at \<open>/data/files/a/.dxdir\<close>.
\<close>

theorem dirFilePath_leaves_root_out:
  "dirFilePath ds_data ''a'' = ''a/a/.dxdir''
   \<and> New_filePath ''a'' (rootDir ds_data) = ''/data/files/a/.dxdir''
   \<and> dirFilePath ds_data ''a'' \<noteq> New_filePath ''a'' (rootDir ds_data)"
  by (simp add: dirFilePath_def New_filePath_def SysPath_Join_def filepath_Join_def
      filepath_Clean_def dirFileName_def DirFileName_def ds_data_def Let_def)


subsection \<open>The cleanup loop\<close>













subsection \<open>Exactness of the float64 computations\<close>

text \<open>
  On integers below \<open>2^53\<close> in magnitude, and on their quarters, rounding to a \<open>float64\<close>
  changes nothing; so the products with \<open>0.25\<close> and \<open>0.75\<close> that the code computes are
  the exact products.
\<close>

lemma round_half_even_of_int [simp]: "round_half_even (of_int k) = k"
  by (simp add: round_half_even_def Let_def)

lemma f64_exponent_le:
  assumes "x \<noteq> 0"
  shows "2 powi (f64_exponent x) \<le> \<bar>x\<bar>"
proof (cases "1 \<le> \<bar>x\<bar>")
  case True
  then have pos: "0 < \<lfloor>\<bar>x\<bar>\<rfloor>" by linarith
  have "2 ^ nat (bitlen \<lfloor>\<bar>x\<bar>\<rfloor> - 1) \<le> \<lfloor>\<bar>x\<bar>\<rfloor>"
    using bitlen_bounds [OF pos] by simp
  then have "(of_int (2 ^ nat (bitlen \<lfloor>\<bar>x\<bar>\<rfloor> - 1)) :: rat) \<le> of_int \<lfloor>\<bar>x\<bar>\<rfloor>"
    by (simp only: of_int_le_iff)
  also have "\<dots> \<le> \<bar>x\<bar>" by simp
  finally have le: "(2::rat) ^ nat (bitlen \<lfloor>\<bar>x\<bar>\<rfloor> - 1) \<le> \<bar>x\<bar>" by simp
  have "1 \<le> bitlen \<lfloor>\<bar>x\<bar>\<rfloor>" using pos by (auto simp: bitlen_alt_def)
  then have "(2::rat) powi (bitlen \<lfloor>\<bar>x\<bar>\<rfloor> - 1) = 2 ^ nat (bitlen \<lfloor>\<bar>x\<bar>\<rfloor> - 1)"
    by (simp add: power_int_def)
  with le True show ?thesis by (simp add: f64_exponent_def)
next
  case False
  define y where "y = 1 / \<bar>x\<bar>"
  have xpos: "0 < \<bar>x\<bar>" using assms by simp
  have y1: "1 < y" using False xpos by (simp add: y_def)
  then have npos: "0 < \<lceil>y\<rceil> - 1" by linarith
  define k where "k = bitlen (\<lceil>y\<rceil> - 1)"
  have "\<lceil>y\<rceil> - 1 < 2 ^ nat k" using bitlen_bounds [OF npos] by (simp add: k_def)
  then have "\<lceil>y\<rceil> \<le> 2 ^ nat k" by linarith
  then have "y \<le> of_int (2 ^ nat k)" by (simp only: ceiling_le_iff)
  then have "y \<le> 2 ^ nat k" by simp
  then have "1 / \<bar>x\<bar> \<le> 2 ^ nat k" by (simp add: y_def)
  then have "1 \<le> 2 ^ nat k * \<bar>x\<bar>" using xpos by (simp add: field_simps)
  then have "inverse (2 ^ nat k) \<le> \<bar>x\<bar>"
    by (simp add: field_simps)
  moreover have "0 \<le> k" by (simp add: k_def bitlen_nonneg)
  then have "(2::rat) powi k = 2 ^ nat k" by (simp add: power_int_def)
  then have "(2::rat) powi (- k) = inverse (2 ^ nat k)"
    by (simp only: power_int_minus)
  ultimately show ?thesis using False by (simp add: f64_exponent_def k_def y_def)
qed

lemma round_f64_exact:
  assumes "\<bar>m\<bar> < 2 ^ 53"
  shows "round_f64 (of_int m * 2 powi j) = of_int m * 2 powi j"
proof (cases "m = 0")
  case True
  then show ?thesis by (simp add: round_f64_def)
next
  case False
  define x :: rat where "x = of_int m * 2 powi j"
  have x0: "x \<noteq> 0" using False by (simp add: x_def)
  define e where "e = f64_exponent x"
  have "2 powi e \<le> \<bar>x\<bar>" using f64_exponent_le [OF x0] by (simp add: e_def)
  also have "\<bar>x\<bar> = of_int \<bar>m\<bar> * 2 powi j" by (simp add: x_def abs_mult)
  also have "\<dots> < 2 ^ 53 * 2 powi j"
  proof -
    have "(of_int \<bar>m\<bar> :: rat) < of_int (2 ^ 53)" using assms by (simp only: of_int_less_iff)
    then show ?thesis by (simp add: mult_strict_right_mono)
  qed
  also have "\<dots> = 2 powi (53 + j)" by (simp add: power_int_add)
  finally have "(2::rat) powi e < 2 powi (53 + j)" .
  then have "e < 53 + j"
    using power_int_increasing [of "53 + j" e "2::rat"] by (cases "e < 53 + j") auto
  then have n: "0 \<le> j - (e - 52)" by simp
  have "x / 2 powi (e - 52) = of_int m * 2 powi (j - (e - 52))"
    by (simp add: x_def power_int_diff)
  also have "\<dots> = of_int (m * 2 ^ nat (j - (e - 52)))"
    using n by (simp add: power_int_def)
  finally have q: "x / 2 powi (e - 52) = of_int (m * 2 ^ nat (j - (e - 52)))" .
  have "round_f64 x = of_int (round_half_even (x / 2 powi (e - 52))) * 2 powi (e - 52)"
    using x0 by (simp add: round_f64_def e_def Let_def)
  also have "\<dots> = (x / 2 powi (e - 52)) * 2 powi (e - 52)"
    by (simp only: q round_half_even_of_int)
  also have "\<dots> = x" by simp
  finally show ?thesis by (simp add: x_def)
qed

lemma round_f64_of_int: "\<bar>m\<bar> < 2 ^ 53 \<Longrightarrow> round_f64 (of_int m) = of_int m"
  using round_f64_exact [of m 0] by simp

lemma round_f64_quarters: "\<bar>m\<bar> < 2 ^ 53 \<Longrightarrow> round_f64 (of_int m / 4) = of_int m / 4"
  using round_f64_exact [of m "-2"] by (simp add: power_int_def field_simps)

lemma int64_wrap_id: "- (2 ^ 63) \<le> x \<Longrightarrow> x < 2 ^ 63 \<Longrightarrow> int64_wrap x = x"
  by (simp add: int64_wrap_def sint_sbintrunc' signed_take_bit_int_eq_self)

lemma three_quarters: "round_f64 (1 - RemoteRepairDownloadThreshold) = 3 / 4"
  using round_f64_quarters [of 3] by (simp add: RemoteRepairDownloadThreshold_def)

lemma successfulRepair_exact:
  assumes "\<bar>pn\<bar> < 2 ^ 51" "\<bar>pc\<bar> < 2 ^ 53"
  shows "successfulRepair pn pc \<longleftrightarrow> (1 - RemoteRepairDownloadThreshold) * of_int pn \<le> of_int pc"
proof -
  from assms(1) have pn: "\<bar>pn\<bar> < 2 ^ 53" and pn3: "\<bar>3 * pn\<bar> < 2 ^ 53" by simp_all
  have "f64_mul (3 / 4) (of_int pn) = round_f64 (of_int (3 * pn) / 4)"
    by (simp add: f64_mul_def)
  also have "\<dots> = of_int (3 * pn) / 4" by (rule round_f64_quarters [OF pn3])
  finally have m: "f64_mul (3 / 4) (of_int pn) = 3 / 4 * of_int pn" by simp
  have "successfulRepair pn pc \<longleftrightarrow> f64_mul (3 / 4) (of_int pn) \<le> of_int pc"
    by (simp only: successfulRepair_def three_quarters float64_of_int_def
        round_f64_of_int [OF pn] round_f64_of_int [OF assms(2)])
  also have "\<dots> \<longleftrightarrow> (1 - RemoteRepairDownloadThreshold) * of_int pn \<le> of_int pc"
    by (simp only: m) (simp add: RemoteRepairDownloadThreshold_def)
  finally show ?thesis .
qed

lemma minMissingPiecesToDownload_exact:
  assumes "\<bar>piecesNeeded s - minimumPieces s\<bar> < 2 ^ 53"
  shows "minMissingPiecesToDownload s
     = int_of_float64 (RemoteRepairDownloadThreshold * of_int (piecesNeeded s - minimumPieces s))"
proof -
  let ?d = "piecesNeeded s - minimumPieces s"
  from assms have w: "int64_wrap ?d = ?d" by (intro int64_wrap_id) simp_all
  have "f64_mul (of_int ?d) (1 / 4) = round_f64 (of_int ?d / 4)" by (simp add: f64_mul_def)
  also have "\<dots> = of_int ?d / 4" by (rule round_f64_quarters [OF assms])
  finally have m: "f64_mul (of_int ?d) (1 / 4) = of_int ?d / 4" .
  show ?thesis
    by (simp only: minMissingPiecesToDownload_def Let_def w float64_of_int_def
        round_f64_of_int [OF assms] RemoteRepairDownloadThreshold_def m) simp
qed

lemma int_of_float64_threshold_nonneg:
  "0 \<le> d \<Longrightarrow> int_of_float64 (RemoteRepairDownloadThreshold * of_int d) = d div 4"
  using floor_divide_of_int_eq [of d 4, where ?'a = rat]
  by (simp add: int_of_float64_def RemoteRepairDownloadThreshold_def)

lemma int_of_float64_quarter_bounds:
  "\<bar>int_of_float64 (RemoteRepairDownloadThreshold * of_int d)\<bar> \<le> \<bar>d\<bar>"
proof (cases "0 \<le> d")
  case True
  then have "int_of_float64 (RemoteRepairDownloadThreshold * of_int d) = d div 4"
    using floor_divide_of_int_eq [of d 4, where ?'a = rat]
    by (simp add: int_of_float64_def RemoteRepairDownloadThreshold_def)
  with True show ?thesis by simp
next
  case False
  then have "int_of_float64 (RemoteRepairDownloadThreshold * of_int d) = - ((- d) div 4)"
    using floor_divide_of_int_eq [of "- d" 4, where ?'a = rat]
    by (simp add: int_of_float64_def RemoteRepairDownloadThreshold_def ceiling_def)
  with False show ?thesis by simp
qed

lemma download_wanted_exact:
  assumes d: "\<bar>piecesNeeded s - minimumPieces s\<bar> < 2 ^ 53"
    and c: "\<bar>piecesCompleted s\<bar> < 2 ^ 62"
  shows "download_wanted s \<longleftrightarrow>
     piecesCompleted s
       + int_of_float64 (RemoteRepairDownloadThreshold * of_int (piecesNeeded s - minimumPieces s))
     < piecesNeeded s"
proof -
  let ?m = "int_of_float64 (RemoteRepairDownloadThreshold * of_int (piecesNeeded s - minimumPieces s))"
  have "\<bar>?m\<bar> \<le> \<bar>piecesNeeded s - minimumPieces s\<bar>" by (rule int_of_float64_quarter_bounds)
  with d have "\<bar>?m\<bar> < 2 ^ 53" by linarith
  with c have "- (2 ^ 63) \<le> piecesCompleted s + ?m" "piecesCompleted s + ?m < 2 ^ 63"
    by (simp_all add: abs_less_iff)
  then have "int64_wrap (piecesCompleted s + ?m) = piecesCompleted s + ?m"
    by (rule int64_wrap_id)
  then show ?thesis
    by (simp only: download_wanted_def minMissingPiecesToDownload_exact [OF d])
qed



lemma threshold_int_1: "int_of_float64 RemoteRepairDownloadThreshold = 0"
  by (simp add: int_of_float64_def RemoteRepairDownloadThreshold_def floor_eq_iff)

lemma threshold_int_2: "int_of_float64 (RemoteRepairDownloadThreshold * 2) = 0"
  by (simp add: int_of_float64_def RemoteRepairDownloadThreshold_def floor_eq_iff)

lemma seg_c3_range:
  "\<bar>piecesNeeded seg_c3 - minimumPieces seg_c3\<bar> < 2 ^ 53" "\<bar>piecesCompleted seg_c3\<bar> < 2 ^ 62"
  by (simp_all add: seg_c3_def)

lemma seg_overfull_range:
  "\<bar>piecesNeeded seg_overfull - minimumPieces seg_overfull\<bar> < 2 ^ 53"
  "\<bar>piecesCompleted seg_overfull\<bar> < 2 ^ 62"
  by (simp_all add: seg_overfull_def)


lemma seg_c3_wanted: "download_wanted seg_c3"
  using download_wanted_exact [OF seg_c3_range]
  by (simp add: seg_c3_def threshold_int_2)

subsection \<open>The stuck status\<close>

text \<open>
  C2. When the client is online and not stopping, \<open>managedUpdateUploadSegmentStuckStatus\<close>
  calls \<open>SetStuckByIndex\<close> with the segment's index and the stuck flag false exactly when
  piecesCompleted \<open>\<ge>\<close> (1 - RemoteRepairDownloadThreshold) * piecesNeeded, and true
  otherwise. The piece counts are within the range in which the \<open>float64\<close> product is
  exact.
\<close>

theorem stuck_flag_follows_repair_criterion:
  assumes "w_online w" and "\<not> w_stopped w"
    and "\<bar>piecesNeeded uc\<bar> < 2 ^ 51" and "\<bar>piecesCompleted uc\<bar> < 2 ^ 53"
  shows "su_SetStuckByIndex (managedUpdateUploadSegmentStuckStatus w uc)
     = Some (sint (id_index uc),
         \<not> (1 - RemoteRepairDownloadThreshold) * of_int (piecesNeeded uc)
              \<le> of_int (piecesCompleted uc))"
  using assms(1,2)
  by (simp add: managedUpdateUploadSegmentStuckStatus_def Let_def
      successfulRepair_exact [OF assms(3,4)])

text \<open>
  The witness of C2: with 1 of 3 pieces completed the segment is marked stuck, with 3 of 2
  it is marked not stuck.
\<close>

theorem stuck_flag_follows_repair_criterion_witness:
  "su_SetStuckByIndex (managedUpdateUploadSegmentStuckStatus world_online seg_c3)
     = Some (0, True)
   \<and> su_SetStuckByIndex (managedUpdateUploadSegmentStuckStatus world_online seg_overfull)
     = Some (0, False)"
proof -
  have a: "w_online world_online" "\<not> w_stopped world_online"
    by (simp_all add: world_online_def)
  have b: "\<bar>piecesNeeded seg_c3\<bar> < 2 ^ 51" "\<bar>piecesCompleted seg_c3\<bar> < 2 ^ 53"
    by (simp_all add: seg_c3_def)
  have c: "\<bar>piecesNeeded seg_overfull\<bar> < 2 ^ 51" "\<bar>piecesCompleted seg_overfull\<bar> < 2 ^ 53"
    by (simp_all add: seg_overfull_def)
  have "su_SetStuckByIndex (managedUpdateUploadSegmentStuckStatus world_online seg_c3)
     = Some (0, True)"
    using stuck_flag_follows_repair_criterion [OF a b]
    by (simp add: seg_c3_def RemoteRepairDownloadThreshold_def)
  moreover have "su_SetStuckByIndex (managedUpdateUploadSegmentStuckStatus world_online seg_overfull)
     = Some (0, False)"
    using stuck_flag_follows_repair_criterion [OF a c]
    by (simp add: seg_overfull_def RemoteRepairDownloadThreshold_def)
  ultimately show ?thesis by simp
qed

subsection \<open>Failure of the fetch\<close>



subsection \<open>The repair download\<close>

text \<open>
  C5 as stated fails where the file has a local path that cannot be opened: the download
  condition holds for \<open>seg_c3\<close> (1 + int(0.25 * 2) = 1 < 3) and the function issues the
  repair download although the local path is not empty.
\<close>

theorem repair_download_with_local_path:
  "fst (managedFetchLogicalSegmentData world_offline fe_local seg_c3)
   \<and> fe_LocalPath fe_local \<noteq> []
   \<and> piecesCompleted seg_c3
        + int_of_float64 (RemoteRepairDownloadThreshold
            * of_int (piecesNeeded seg_c3 - minimumPieces seg_c3))
      < piecesNeeded seg_c3"
  by (simp add: managedFetchLogicalSegmentData_def seg_c3_wanted fe_local_def world_offline_def)
    (simp add: seg_c3_def threshold_int_2)

text \<open>
  C5 (amended). \<open>managedFetchLogicalSegmentData\<close> issues a repair download exactly when
  piecesCompleted + int(RemoteRepairDownloadThreshold * (piecesNeeded - minimumPieces))
  < piecesNeeded and the local copy cannot be used: the file has no local path, or opening
  it fails, or reading it fails with an error other than the two end-of-file errors. When
  the file has no local path and the condition does not hold, the function returns the
  error "file not available locally" without downloading. The piece counts are within the
  range in which the \<open>float64\<close> and \<open>int\<close> arithmetic is exact.
\<close>

theorem repair_download_issued_iff:
  assumes "\<bar>piecesNeeded s - minimumPieces s\<bar> < 2 ^ 53" and "\<bar>piecesCompleted s\<bar> < 2 ^ 62"
  shows "(fst (managedFetchLogicalSegmentData w fe s) \<longleftrightarrow>
            piecesCompleted s
              + int_of_float64 (RemoteRepairDownloadThreshold
                  * of_int (piecesNeeded s - minimumPieces s))
            < piecesNeeded s
            \<and> (fe_LocalPath fe = [] \<or> w_open_err w \<or> read_failed (w_read w)))
       \<and> (fe_LocalPath fe = []
            \<and> \<not> piecesCompleted s
                  + int_of_float64 (RemoteRepairDownloadThreshold
                      * of_int (piecesNeeded s - minimumPieces s))
                < piecesNeeded s
          \<longrightarrow> managedFetchLogicalSegmentData w fe s
                = (False, Inl (Err ''file not available locally'')))"
  by (simp add: managedFetchLogicalSegmentData_def Let_def download_wanted_exact [OF assms])

text \<open>
  The witness of C5 (amended): a download with a local path that does not open, and the
  error for a file without local path whose segment needs no download.
\<close>

theorem repair_download_issued_iff_witness:
  "fst (managedFetchLogicalSegmentData world_offline fe_local seg_c3)
   \<and> managedFetchLogicalSegmentData world_offline fe_remote seg_overfull
       = (False, Inl (Err ''file not available locally''))"
proof -
  have "fst (managedFetchLogicalSegmentData world_offline fe_local seg_c3)"
    using repair_download_issued_iff [OF seg_c3_range, of world_offline fe_local]
    by (simp add: seg_c3_def threshold_int_2 world_offline_def)
  moreover have "managedFetchLogicalSegmentData world_offline fe_remote seg_overfull
       = (False, Inl (Err ''file not available locally''))"
    using repair_download_issued_iff [OF seg_overfull_range, of world_offline fe_remote]
    by (simp add: seg_overfull_def threshold_int_1 fe_remote_def)
  ultimately show ?thesis by simp
qed


subsection \<open>The last segment of a download\<close>









end
